theory Spec2Isabelle
  imports Complex_Main "HOL-Library.AList"
begin

section \<open>Motor controller of src/Controller/main.py\<close>

text \<open>
  The development embeds the class \<open>MotorController\<close> of src/Controller/main.py.

  Modelling conventions.
  \<^item> Python numbers that hold joint positions (a mix of \<open>int\<close> and \<open>float\<close> in the
    source) are values of type \<open>real\<close>: an \<open>int\<close> or a finite double is the real number
    it denotes; \<open>nan\<close> and \<open>inf\<close> have no counterpart.
  \<^item> The display smoother computes in doubles. Its model takes the rounding of an exact
    result to a double as a parameter \<open>fl\<close> and applies it after every subtraction,
    multiplication and addition, as IEEE 754 defines these operations; results that
    overflow are outside the model. The jog step of \<open>update_target\<close> adds or subtracts
    an integer exactly, as Python does on integers.
  \<^item> The object's attributes are the fields of the record \<open>controller\<close>. The global
    \<open>Config.PASSIVITY_MODE\<close> and \<open>Config.DEV_MODE\<close>, the receive queue of the
    \<open>SerialCommunicator\<close>, the commands handed to \<open>SerialCommunicator.send\<close> and the
    file \<open>custom_presets.json\<close> are fields of the same record, since the methods read
    and write them.
  \<^item> A method returns the state it leaves behind together with either the exception
    that escapes it or its return value. A mutation made before an exception is raised
    stays in the returned state, as it stays in the Python object.
  \<^item> \<open>print\<close> calls and the rate limited feedback log are not modelled.
  \<^item> The builtins \<open>float\<close> and \<open>int\<close> applied to a string are parameters
    \<open>pf\<close> and \<open>pint\<close> of the model: \<open>None\<close> stands for \<open>ValueError\<close>.
\<close>

subsection \<open>Data model\<close>

datatype MotorConfig = MotorConfig (index: int) (name: string) (min_val: int) (max_val: int)
  (default_pos: int)

datatype MotorState = IDLE | MOVING | ERROR | AT_LIMIT

datatype py_exn = IndexError | FileNotFoundError | JSONDecodeError | OSError

text \<open>
  What \<open>open('custom_presets.json', 'r')\<close> followed by \<open>json.load\<close> finds: no file, a
  file that is not JSON, or a JSON object, given as the dict \<open>json.load\<close> returns (an
  association list in insertion order with distinct keys).
\<close>

datatype 'v preset_file = Missing | Malformed | Loaded "(string \<times> 'v) list"

record controller =
  motors :: "MotorConfig list"
  current_positions :: "real list"
  target_positions :: "real list"
  motor_states :: "MotorState list"
  all_torque_enabled :: bool
  torque_enabled :: "bool list"
  is_passivity_first :: bool
  passivity_initialized_motors :: "bool list"
  display_positions :: "real list"
  default_preset :: "int list"
  custom_presets :: "(string \<times> real list) list"
  waiting_for_positions :: bool
  passivity_presets :: "int list"
  PASSIVITY_MODE :: bool
  DEV_MODE :: bool
  receive_queue :: "string list"
  sent :: "string list"
  stored_presets :: "real list preset_file"
  storage_writable :: bool

type_synonym 'a outcome = "controller \<times> (py_exn + 'a)"

subsection \<open>Strings\<close>

fun str_nat :: "nat \<Rightarrow> string" where
  "str_nat n = (if n < 10 then [''0123456789'' ! n]
                else str_nat (n div 10) @ [''0123456789'' ! (n mod 10)])"

declare str_nat.simps [simp del]

definition str_int :: "int \<Rightarrow> string" where
  "str_int i = (if i < 0 then CHR ''-'' # str_nat (nat (- i)) else str_nat (nat i))"

text \<open>\<open>sep.join(xs)\<close>\<close>

fun join :: "string \<Rightarrow> string list \<Rightarrow> string" where
  "join sep [] = []"
| "join sep [x] = x"
| "join sep (x # y # ys) = x @ sep @ join sep (y # ys)"

text \<open>\<open>s.split(',')\<close>: one field more than there are commas.\<close>

fun split_comma :: "string \<Rightarrow> string list" where
  "split_comma [] = [[]]"
| "split_comma (c # cs) =
     (if c = CHR '','' then [] # split_comma cs
      else (case split_comma cs of
              [] \<Rightarrow> [[c]]
            | p # ps \<Rightarrow> (c # p) # ps))"

definition startswith :: "string \<Rightarrow> string \<Rightarrow> bool" where
  "startswith s p = (take (length p) s = p)"

text \<open>\<open>int(x)\<close> of a float truncates towards zero.\<close>

definition py_int :: "real \<Rightarrow> int" where
  "py_int x = (if x < 0 then \<lceil>x\<rceil> else \<lfloor>x\<rfloor>)"

subsection \<open>Serial link\<close>

text \<open>
  \<open>sent\<close> records the commands passed to \<open>SerialCommunicator.send\<close>, oldest first.
\<close>

definition serial_send :: "string \<Rightarrow> controller \<Rightarrow> controller" where
  "serial_send command s = s\<lparr>sent := sent s @ [command]\<rparr>"

definition get_received_data :: "controller \<Rightarrow> string option \<times> controller" where
  "get_received_data s =
     (if DEV_MODE s then (None, s)
      else (case receive_queue s of
              [] \<Rightarrow> (None, s)
            | d # ds \<Rightarrow> (Some d, s\<lparr>receive_queue := ds\<rparr>)))"

subsection \<open>Construction and preset file\<close>

definition motor_table :: "MotorConfig list" where
  "motor_table =
     [MotorConfig 0 ''Base'' 0 1023 512,
      MotorConfig 1 ''Shoulder'' 180 845 512,
      MotorConfig 2 ''Upper_Arm'' 165 1023 380,
      MotorConfig 3 ''Elbow'' 512 1023 800,
      MotorConfig 4 ''forearm'' 512 1023 700,
      MotorConfig 5 ''Wrist'' 0 1023 512,
      MotorConfig 6 ''Hand'' 370 695 512]"

definition builtin_custom_presets :: "(string \<times> real list) list" where
  "builtin_custom_presets =
     [(''Custom 1'', [512, 512, 380, 800, 700, 512, 512]),
      (''Custom 2'', [512, 512, 380, 800, 700, 512, 512]),
      (''Custom 3'', [512, 512, 380, 800, 700, 512, 512]),
      (''Custom 4'', [512, 512, 380, 800, 700, 512, 512])]"

text \<open>
  \<open>_load_custom_presets\<close>: only \<open>FileNotFoundError\<close> is handled; the decode error of
  \<open>json.load\<close> leaves the method.
\<close>

definition load_custom_presets :: "real list preset_file \<Rightarrow> py_exn + (string \<times> real list) list" where
  "load_custom_presets f =
     (case f of
        Missing \<Rightarrow> Inr builtin_custom_presets
      | Malformed \<Rightarrow> Inl JSONDecodeError
      | Loaded presets \<Rightarrow> Inr (if length presets > 4 then take 4 presets else presets))"

text \<open>
  \<open>MotorController.__init__\<close>, for a table of motors \<open>ms\<close> (the source's table is
  \<open>motor_table\<close>), the state of the preset file, its writability and \<open>Config.DEV_MODE\<close>.
  \<open>Config.PASSIVITY_MODE\<close> is \<open>False\<close> when the controller is built.
  \<open>fresh_controller\<close> is the object once \<open>_load_custom_presets\<close> has returned \<open>presets\<close>.
\<close>

definition fresh_controller ::
  "MotorConfig list \<Rightarrow> (string \<times> real list) list \<Rightarrow> real list preset_file \<Rightarrow> bool \<Rightarrow> bool \<Rightarrow> controller" where
  "fresh_controller ms presets f writable dev =
     serial_send ''2,0,0,0,0,0,0,0*''
       \<lparr>motors = ms,
        current_positions = map (\<lambda>m. real_of_int (default_pos m)) ms,
        target_positions = map (\<lambda>m. real_of_int (default_pos m)) ms,
        motor_states = replicate (length ms) IDLE,
        all_torque_enabled = True,
        torque_enabled = replicate (length ms) True,
        is_passivity_first = False,
        passivity_initialized_motors = replicate 7 False,
        display_positions = map (\<lambda>m. real_of_int (default_pos m)) ms,
        default_preset = map default_pos ms,
        custom_presets = presets,
        waiting_for_positions = False,
        passivity_presets = [],
        PASSIVITY_MODE = False,
        DEV_MODE = dev,
        receive_queue = [],
        sent = [],
        stored_presets = f,
        storage_writable = writable\<rparr>"

definition new_controller ::
  "MotorConfig list \<Rightarrow> real list preset_file \<Rightarrow> bool \<Rightarrow> bool \<Rightarrow> py_exn + controller" where
  "new_controller ms f writable dev =
     (case load_custom_presets f of
        Inl e \<Rightarrow> Inl e
      | Inr presets \<Rightarrow> Inr (fresh_controller ms presets f writable dev))"

definition MotorController_init :: "real list preset_file \<Rightarrow> bool \<Rightarrow> bool \<Rightarrow> py_exn + controller" where
  "MotorController_init f writable dev = new_controller motor_table f writable dev"

subsection \<open>Commands\<close>

definition send_control_command :: "controller \<Rightarrow> controller" where
  "send_control_command s =
     (if PASSIVITY_MODE s then s
      else serial_send (''0,'' @ join '','' (map (\<lambda>pos. str_int (py_int pos)) (target_positions s)) @ ''*'') s)"

definition torque_command :: "bool list \<Rightarrow> string" where
  "torque_command flags = ''1,'' @ join '','' (map (\<lambda>enabled. if enabled then ''1'' else ''0'') flags) @ ''*''"

definition send_torque_command :: "controller \<Rightarrow> controller" where
  "send_torque_command s = serial_send (torque_command (torque_enabled s)) s"

subsection \<open>Mode switch\<close>

definition toggle_all_torque :: "controller \<Rightarrow> controller \<times> bool" where
  "toggle_all_torque s =
     (let new_state = \<not> all_torque_enabled s;
          s1 = send_torque_command
                 (s\<lparr>all_torque_enabled := new_state,
                    torque_enabled := replicate (length (motors s)) new_state\<rparr>);
          s2 = s1\<lparr>PASSIVITY_MODE := \<not> new_state\<rparr>;
          s3 = (if PASSIVITY_MODE s2
                then serial_send ''2,1,0,0,0,0,0,0*''
                       (s2\<lparr>is_passivity_first := True,
                           passivity_initialized_motors := replicate 7 False\<rparr>)
                else serial_send ''2,0,0,0,0,0,0,0*''
                       (s2\<lparr>is_passivity_first := False,
                           passivity_initialized_motors := replicate 7 False\<rparr>))
      in (s3, new_state))"

subsection \<open>Presets\<close>

definition preset_name :: "int \<Rightarrow> string" where
  "preset_name slot_index = ''Custom '' @ str_int (slot_index + 1)"

definition load_default_preset :: "controller \<Rightarrow> controller \<times> bool" where
  "load_default_preset s =
     (if PASSIVITY_MODE s then (s, False)
      else (send_control_command (s\<lparr>target_positions := map real_of_int (default_preset s)\<rparr>), True))"

definition load_custom_preset :: "int \<Rightarrow> controller \<Rightarrow> controller \<times> bool" where
  "load_custom_preset slot_index s =
     (if PASSIVITY_MODE s then (s, False)
      else if 0 \<le> slot_index \<and> slot_index < 4 then
        (case map_of (custom_presets s) (preset_name slot_index) of
           Some preset \<Rightarrow> (send_control_command (s\<lparr>target_positions := preset\<rparr>), True)
         | None \<Rightarrow> (s, False))
      else (s, False))"

subsection \<open>Manual jog\<close>

text \<open>The new target of \<open>update_target\<close>: one step up or down, clamped to the motor's range.\<close>

definition clamped_step :: "MotorConfig \<Rightarrow> real \<Rightarrow> string \<Rightarrow> int \<Rightarrow> real" where
  "clamped_step motor old_target direction step_size =
     (if direction = ''increase''
      then min (real_of_int (max_val motor)) (old_target + real_of_int step_size)
      else max (real_of_int (min_val motor)) (old_target - real_of_int step_size))"

definition update_target :: "int \<Rightarrow> string \<Rightarrow> int \<Rightarrow> controller \<Rightarrow> bool outcome" where
  "update_target motor_index direction step_size s =
     (if PASSIVITY_MODE s then (s, Inr False)
      else if 0 \<le> motor_index \<and> motor_index < int (length (motors s)) then
        (let i = nat motor_index; motor = motors s ! i in
         if length (target_positions s) \<le> i then (s, Inl IndexError)
         else
           (let old_target = target_positions s ! i;
                new_target = clamped_step motor old_target direction step_size
            in if new_target = old_target then
                 (if new_target = real_of_int (max_val motor) \<or> new_target = real_of_int (min_val motor)
                  then (if length (motor_states s) \<le> i then (s, Inl IndexError)
                        else (s\<lparr>motor_states := (motor_states s)[i := AT_LIMIT]\<rparr>, Inr False))
                  else (s, Inr False))
               else
                 (let s1 = s\<lparr>target_positions := (target_positions s)[i := new_target]\<rparr> in
                  if length (motor_states s1) \<le> i then (s1, Inl IndexError)
                  else if new_target = real_of_int (max_val motor) \<or> new_target = real_of_int (min_val motor)
                  then (s1\<lparr>motor_states := (motor_states s1)[i := AT_LIMIT]\<rparr>, Inr True)
                  else (s1\<lparr>motor_states := (motor_states s1)[i := MOVING]\<rparr>, Inr True))))
      else (s, Inr False))"

text \<open>
  A sequence of jog calls, each given as (motor index, direction, step size). A call that
  raises leaves the state as it was when the exception was raised.
\<close>

fun update_targets :: "(int \<times> string \<times> int) list \<Rightarrow> controller \<Rightarrow> controller" where
  "update_targets [] s = s"
| "update_targets ((m, d, k) # calls) s = update_targets calls (fst (update_target m d k s))"

subsection \<open>Iteration over the joints\<close>

text \<open>
  \<open>for i in range(...)\<close> with a body that may raise: the first exception ends the loop
  and the mutations made so far stay.
\<close>

fun for_each :: "(nat \<Rightarrow> controller \<Rightarrow> unit outcome) \<Rightarrow> nat list \<Rightarrow> controller \<Rightarrow> unit outcome" where
  "for_each body [] s = (s, Inr ())"
| "for_each body (i # is) s =
     (case body i s of
        (s', Inl e) \<Rightarrow> (s', Inl e)
      | (s', Inr u) \<Rightarrow> for_each body is s')"

subsection \<open>Display smoother\<close>

text \<open>The double that the literal \<open>0.15\<close> denotes.\<close>

definition ui_smoothness :: real where
  "ui_smoothness = 5404319552844595 / 36028797018963968"

text \<open>
  The body of the loop of \<open>update_positions\<close>. \<open>abs\<close> and the comparisons are exact on
  doubles; \<open>0.5\<close> and \<open>2\<close> are doubles. Where both operands of a subtraction are still
  Python integers the source subtracts exactly; rounding to the nearest double leaves
  such a difference as it is, the positions being far below \<open>2 ^ 53\<close>.
\<close>

definition smooth_joint :: "(real \<Rightarrow> real) \<Rightarrow> nat \<Rightarrow> controller \<Rightarrow> unit outcome" where
  "smooth_joint fl i s =
     (if length (target_positions s) \<le> i \<or> length (display_positions s) \<le> i then (s, Inl IndexError)
      else
        (let diff = fl (target_positions s ! i - display_positions s ! i);
             s1 = (if \<bar>diff\<bar> > 0.5
                   then s\<lparr>display_positions :=
                            (display_positions s)[i := fl (display_positions s ! i + fl (diff * ui_smoothness))]\<rparr>
                   else s\<lparr>display_positions := (display_positions s)[i := target_positions s ! i]\<rparr>)
         in if length (motor_states s1) \<le> i then (s1, Inl IndexError)
            else if \<bar>fl (display_positions s1 ! i - target_positions s1 ! i)\<bar> < 2 then
              (if motor_states s1 ! i = MOVING
               then (s1\<lparr>motor_states := (motor_states s1)[i := IDLE]\<rparr>, Inr ())
               else (s1, Inr ()))
            else
              (if motor_states s1 ! i \<noteq> AT_LIMIT
               then (s1\<lparr>motor_states := (motor_states s1)[i := MOVING]\<rparr>, Inr ())
               else (s1, Inr ()))))"

definition update_positions :: "(real \<Rightarrow> real) \<Rightarrow> controller \<Rightarrow> unit outcome" where
  "update_positions fl s =
     (case for_each (smooth_joint fl) [0..<length (motors s)] s of
        (s', Inl e) \<Rightarrow> (s', Inl e)
      | (s', Inr u) \<Rightarrow> (s'\<lparr>current_positions := display_positions s'\<rparr>, Inr ()))"

subsection \<open>Feedback synchronizer\<close>

text \<open>The parsing loop of a feedback line: \<open>float(parts[i])\<close> for each joint, given up at the first failure.\<close>

fun parse_fields :: "(string \<Rightarrow> real option) \<Rightarrow> string list \<Rightarrow> nat list \<Rightarrow> real list option" where
  "parse_fields pf parts [] = Some []"
| "parse_fields pf parts (i # is) =
     (if i < length parts then
        (case pf (parts ! i) of
           None \<Rightarrow> None
         | Some new_pos \<Rightarrow>
             (case parse_fields pf parts is of
                None \<Rightarrow> None
              | Some new_positions \<Rightarrow> Some (new_pos # new_positions)))
      else None)"

text \<open>\<open>[int(p) for p in parts]\<close>\<close>

fun parse_ints :: "(string \<Rightarrow> int option) \<Rightarrow> string list \<Rightarrow> int list option" where
  "parse_ints pint [] = Some []"
| "parse_ints pint (p # ps) =
     (case pint p of
        None \<Rightarrow> None
      | Some v \<Rightarrow> (case parse_ints pint ps of None \<Rightarrow> None | Some vs \<Rightarrow> Some (v # vs)))"

definition set_idle :: "nat \<Rightarrow> controller \<Rightarrow> unit outcome" where
  "set_idle i s =
     (if length (motor_states s) \<le> i then (s, Inl IndexError)
      else (s\<lparr>motor_states := (motor_states s)[i := IDLE]\<rparr>, Inr ()))"

definition sync_joint :: "real list \<Rightarrow> nat \<Rightarrow> controller \<Rightarrow> unit outcome" where
  "sync_joint new_positions i s =
     (if length (passivity_initialized_motors s) \<le> i then (s, Inl IndexError)
      else if \<not> passivity_initialized_motors s ! i then
        (if length (target_positions s) \<le> i then (s, Inl IndexError)
         else
           (let s1 = s\<lparr>target_positions := (target_positions s)[i := new_positions ! i]\<rparr> in
            if length (display_positions s1) \<le> i then (s1, Inl IndexError)
            else
              (let s2 = s1\<lparr>display_positions := (display_positions s1)[i := new_positions ! i]\<rparr> in
               if length (current_positions s2) \<le> i then (s2, Inl IndexError)
               else
                 set_idle i
                   (s2\<lparr>current_positions := (current_positions s2)[i := new_positions ! i],
                       passivity_initialized_motors := (passivity_initialized_motors s2)[i := True]\<rparr>))))
      else
        (if length (target_positions s) \<le> i then (s, Inl IndexError)
         else set_idle i (s\<lparr>target_positions := (target_positions s)[i := new_positions ! i]\<rparr>)))"

text \<open>\<open>while self.serial.get_received_data() is not None: pass\<close>\<close>

function drain :: "controller \<Rightarrow> controller" where
  "drain s = (case get_received_data s of (None, s') \<Rightarrow> s' | (Some d, s') \<Rightarrow> drain s')"
  by pat_completeness auto
termination
  by (relation "measure (\<lambda>s. length (receive_queue s))")
     (auto simp: get_received_data_def split: if_splits list.splits)

declare drain.simps [simp del]

text \<open>
  \<open>process_feedback\<close>. Every exception raised while a line is handled is caught by the
  method's own handler, so the method always returns; what it returns is the state.
\<close>

definition process_feedback ::
  "(string \<Rightarrow> real option) \<Rightarrow> (string \<Rightarrow> int option) \<Rightarrow> controller \<Rightarrow> controller" where
  "process_feedback pf pint s =
     (if \<not> PASSIVITY_MODE s \<and> \<not> waiting_for_positions s then drain s
      else
        (case get_received_data s of
           (None, s1) \<Rightarrow> s1
         | (Some data, s1) \<Rightarrow>
             if data = [] then s1
             else if startswith data ''Positions:'' then
               (case parse_ints pint (split_comma (drop (length ''Positions:'') data)) of
                  None \<Rightarrow> s1
                | Some positions \<Rightarrow>
                    if waiting_for_positions s1 then s1\<lparr>passivity_presets := positions\<rparr> else s1)
             else if startswith data ''Feedback:'' then
               (if \<not> PASSIVITY_MODE s1 then s1
                else
                  (let parts = split_comma (drop (length ''Feedback:'') data) in
                   if length parts < length (motors s1) then s1
                   else
                     (case parse_fields pf parts [0..<length (motors s1)] of
                        None \<Rightarrow> s1
                      | Some new_positions \<Rightarrow>
                          (case for_each (sync_joint new_positions) [0..<length (motors s1)] s1 of
                             (s2, Inl e) \<Rightarrow> s2
                           | (s2, Inr u) \<Rightarrow>
                               if is_passivity_first s2 \<and> list_all (\<lambda>b. b) (passivity_initialized_motors s2)
                               then s2\<lparr>is_passivity_first := False\<rparr>
                               else s2))))
             else s1))"

subsection \<open>Saving a preset\<close>

text \<open>\<open>with open('custom_presets.json', 'w') as f: json.dump(self.custom_presets, f, indent=2)\<close>\<close>

definition write_presets :: "controller \<Rightarrow> unit outcome" where
  "write_presets s =
     (if storage_writable s then (s\<lparr>stored_presets := Loaded (custom_presets s)\<rparr>, Inr ())
      else (s, Inl OSError))"

text \<open>
  The polling loop of \<open>save_custom_preset\<close> in passivity mode. The clock decides how many
  iterations run; the list \<open>arrivals\<close> has one entry per iteration, the lines the reader
  thread has queued since the previous one.
\<close>

fun wait_for_positions ::
  "(string \<Rightarrow> real option) \<Rightarrow> (string \<Rightarrow> int option) \<Rightarrow> string \<Rightarrow> string list list \<Rightarrow> controller \<Rightarrow> bool outcome" where
  "wait_for_positions pf pint nm [] s = (s\<lparr>waiting_for_positions := False\<rparr>, Inr False)"
| "wait_for_positions pf pint nm (batch # arrivals) s =
     (let s1 = process_feedback pf pint (s\<lparr>receive_queue := receive_queue s @ batch\<rparr>) in
      if passivity_presets s1 \<noteq> [] then
        (case write_presets
                (s1\<lparr>custom_presets :=
                      AList.update nm (map real_of_int (passivity_presets s1)) (custom_presets s1)\<rparr>) of
           (s2, Inl e) \<Rightarrow> (s2, Inl e)
         | (s2, Inr u) \<Rightarrow> (s2\<lparr>passivity_presets := [], waiting_for_positions := False\<rparr>, Inr True))
      else wait_for_positions pf pint nm arrivals s1)"

definition save_custom_preset ::
  "(string \<Rightarrow> real option) \<Rightarrow> (string \<Rightarrow> int option) \<Rightarrow> string list list \<Rightarrow> int \<Rightarrow> controller \<Rightarrow> bool outcome" where
  "save_custom_preset pf pint arrivals slot_index s =
     (if 0 \<le> slot_index \<and> slot_index < 4 then
        (if \<not> PASSIVITY_MODE s then
           (case write_presets
                   (s\<lparr>custom_presets :=
                        AList.update (preset_name slot_index)
                          (map (\<lambda>p. real_of_int (py_int p)) (target_positions s)) (custom_presets s)\<rparr>) of
              (s1, Inl e) \<Rightarrow> (s1, Inl e)
            | (s1, Inr u) \<Rightarrow> (s1, Inr True))
         else
           wait_for_positions pf pint (preset_name slot_index) arrivals
             (serial_send ''3,0,0,0,0,0,0,0*''
                (s\<lparr>waiting_for_positions := True, passivity_presets := []\<rparr>)))
      else (s, Inr False))"

subsection \<open>Main loop\<close>

text \<open>\<open>RobotControlApp.update\<close>, without the session log.\<close>

definition app_update ::
  "(real \<Rightarrow> real) \<Rightarrow> (string \<Rightarrow> real option) \<Rightarrow> (string \<Rightarrow> int option) \<Rightarrow> controller \<Rightarrow> unit outcome" where
  "app_update fl pf pint s = update_positions fl (process_feedback pf pint s)"

subsection \<open>Auxiliary notions for the proofs\<close>

text \<open>Every per joint list has one entry per motor.\<close>

definition well_formed :: "controller \<Rightarrow> bool" where
  "well_formed s =
     (length (target_positions s) = length (motors s) \<and>
      length (display_positions s) = length (motors s) \<and>
      length (current_positions s) = length (motors s) \<and>
      length (passivity_initialized_motors s) = length (motors s) \<and>
      length (motor_states s) = length (motors s))"

text \<open>What \<open>sync_joint\<close> and \<open>smooth_joint\<close> do to a well formed state, where no index is out of range.\<close>

definition sync_step :: "real list \<Rightarrow> nat \<Rightarrow> controller \<Rightarrow> controller" where
  "sync_step nps i s =
     (if passivity_initialized_motors s ! i
      then s\<lparr>target_positions := (target_positions s)[i := nps ! i],
             motor_states := (motor_states s)[i := IDLE]\<rparr>
      else s\<lparr>target_positions := (target_positions s)[i := nps ! i],
             display_positions := (display_positions s)[i := nps ! i],
             current_positions := (current_positions s)[i := nps ! i],
             passivity_initialized_motors := (passivity_initialized_motors s)[i := True],
             motor_states := (motor_states s)[i := IDLE]\<rparr>)"

definition smoothed :: "(real \<Rightarrow> real) \<Rightarrow> real \<Rightarrow> real \<Rightarrow> real" where
  "smoothed fl t d = (if \<bar>fl (t - d)\<bar> > 0.5 then fl (d + fl (fl (t - d) * ui_smoothness)) else t)"

definition settled :: "(real \<Rightarrow> real) \<Rightarrow> real \<Rightarrow> real \<Rightarrow> MotorState \<Rightarrow> MotorState" where
  "settled fl t d st =
     (if \<bar>fl (d - t)\<bar> < 2 then (if st = MOVING then IDLE else st)
      else (if st \<noteq> AT_LIMIT then MOVING else st))"

definition smooth_step :: "(real \<Rightarrow> real) \<Rightarrow> nat \<Rightarrow> controller \<Rightarrow> controller" where
  "smooth_step fl i s =
     (let d = smoothed fl (target_positions s ! i) (display_positions s ! i);
          s1 = s\<lparr>display_positions := (display_positions s)[i := d]\<rparr>
      in if \<bar>fl (d - target_positions s ! i)\<bar> < 2
         then (if motor_states s ! i = MOVING
               then s1\<lparr>motor_states := (motor_states s)[i := IDLE]\<rparr> else s1)
         else (if motor_states s ! i \<noteq> AT_LIMIT
               then s1\<lparr>motor_states := (motor_states s)[i := MOVING]\<rparr> else s1))"

text \<open>The fields that handling received lines never writes.\<close>

definition untouched :: "controller \<Rightarrow> controller \<Rightarrow> bool" where
  "untouched s s' =
     (motors s' = motors s \<and> all_torque_enabled s' = all_torque_enabled s \<and>
      torque_enabled s' = torque_enabled s \<and> default_preset s' = default_preset s \<and>
      custom_presets s' = custom_presets s \<and>
      waiting_for_positions s' = waiting_for_positions s \<and>
      PASSIVITY_MODE s' = PASSIVITY_MODE s \<and> DEV_MODE s' = DEV_MODE s \<and>
      sent s' = sent s \<and> stored_presets s' = stored_presets s \<and>
      storage_writable s' = storage_writable s)"

text \<open>A line that delivers no positions: not a \<open>Positions:\<close> line, or one whose fields do not all parse.\<close>

definition no_positions :: "(string \<Rightarrow> int option) \<Rightarrow> string \<Rightarrow> bool" where
  "no_positions pint l =
     (if startswith l ''Positions:''
      then parse_ints pint (split_comma (drop (length ''Positions:'') l)) = None
      else True)"

subsection \<open>Concrete inputs for the examples\<close>

text \<open>
  The builtins \<open>float\<close> and \<open>int\<close> on a string of decimal digits: \<open>float('600')\<close> is
  \<open>600.0\<close>, and the empty string or a field such as \<open>'512*'\<close> raises \<open>ValueError\<close>.
  They stand for \<open>pf\<close> and \<open>pint\<close> in the closed examples, whose lines have fields of
  these kinds only.
\<close>

definition digit_val :: "char \<Rightarrow> nat option" where
  "digit_val c =
     map_of [(CHR ''0'', 0), (CHR ''1'', 1), (CHR ''2'', 2), (CHR ''3'', 3), (CHR ''4'', 4),
             (CHR ''5'', 5), (CHR ''6'', 6), (CHR ''7'', 7), (CHR ''8'', 8), (CHR ''9'', 9)] c"

fun digits_val :: "string \<Rightarrow> nat \<Rightarrow> nat option" where
  "digits_val [] acc = Some acc"
| "digits_val (c # cs) acc =
     (case digit_val c of None \<Rightarrow> None | Some d \<Rightarrow> digits_val cs (10 * acc + d))"

definition float_of_digits :: "string \<Rightarrow> real option" where
  "float_of_digits p = (if p = [] then None else map_option real (digits_val p 0))"

definition int_of_digits :: "string \<Rightarrow> int option" where
  "int_of_digits p = (if p = [] then None else map_option int (digits_val p 0))"

text \<open>
  The controller as \<open>__init__\<close> leaves it when there is no preset file, and the same
  controller switched to passivity mode with the given lines in the receive queue.
\<close>

definition started :: controller where
  "started = fresh_controller motor_table builtin_custom_presets Missing True False"

definition in_passivity :: "string list \<Rightarrow> controller" where
  "in_passivity lines = (fst (toggle_all_torque started))\<lparr>receive_queue := lines\<rparr>"

section \<open>Properties\<close>

subsection \<open>Mode switch and presets\<close>

lemma in_passivity_mode: "PASSIVITY_MODE (in_passivity lines)"
  by (simp add: in_passivity_def toggle_all_torque_def started_def fresh_controller_def
      serial_send_def send_torque_command_def Let_def)

text \<open>
  Claim C2. While passivity mode is active, \<open>load_default_preset\<close> and
  \<open>load_custom_preset\<close> (for every slot) return \<open>False\<close> and leave the whole state as
  it was: no target changes and nothing is handed to the serial link.
\<close>

theorem load_rejected_in_passivity:
  "PASSIVITY_MODE s \<Longrightarrow>
     load_default_preset s = (s, False) \<and> load_custom_preset slot_index s = (s, False)"
  by (simp add: load_default_preset_def load_custom_preset_def)

theorem load_rejected_in_passivity_witness:
  "PASSIVITY_MODE (in_passivity []) \<and>
   load_default_preset (in_passivity []) = (in_passivity [], False) \<and>
   load_custom_preset 2 (in_passivity []) = (in_passivity [], False)"
  using load_rejected_in_passivity [of "in_passivity []" 2] in_passivity_mode [of "[]"] by simp

text \<open>
  Claim C10. Passivity mode is on exactly when the global torque flag is off, and every
  per joint torque flag equals the global one: in the state \<open>__init__\<close> builds, and after
  every call of \<open>toggle_all_torque\<close> from any state, where the call also flips the global
  flag and returns its new value.
\<close>

theorem passivity_iff_torque_off:
  "PASSIVITY_MODE (fresh_controller ms presets f writable dev) =
     (\<not> all_torque_enabled (fresh_controller ms presets f writable dev)) \<and>
   torque_enabled (fresh_controller ms presets f writable dev) =
     replicate (length ms) (all_torque_enabled (fresh_controller ms presets f writable dev)) \<and>
   PASSIVITY_MODE (fst (toggle_all_torque s)) = (\<not> all_torque_enabled (fst (toggle_all_torque s))) \<and>
   torque_enabled (fst (toggle_all_torque s)) =
     replicate (length (motors (fst (toggle_all_torque s)))) (all_torque_enabled (fst (toggle_all_torque s))) \<and>
   snd (toggle_all_torque s) = all_torque_enabled (fst (toggle_all_torque s)) \<and>
   all_torque_enabled (fst (toggle_all_torque s)) = (\<not> all_torque_enabled s)"
  by (simp add: fresh_controller_def toggle_all_torque_def serial_send_def send_torque_command_def Let_def)

theorem passivity_iff_torque_off_witness:
  "PASSIVITY_MODE started = (\<not> all_torque_enabled started) \<and>
   PASSIVITY_MODE (fst (toggle_all_torque started)) \<and>
   torque_enabled (fst (toggle_all_torque started)) = replicate 7 False \<and>
   \<not> PASSIVITY_MODE (fst (toggle_all_torque (fst (toggle_all_torque started)))) \<and>
   torque_enabled (fst (toggle_all_torque (fst (toggle_all_torque started)))) = replicate 7 True"
  using passivity_iff_torque_off [of motor_table builtin_custom_presets Missing True False started]
    passivity_iff_torque_off [of motor_table builtin_custom_presets Missing True False "fst (toggle_all_torque started)"]
  by (simp add: started_def motor_table_def fresh_controller_def serial_send_def
      toggle_all_torque_def send_torque_command_def Let_def eval_nat_numeral)

text \<open>
  Claim C7. From normal mode (torque on), the first toggle enters passivity mode, clears
  every synchronisation flag, sends the torque command with every flag 0 and then the
  feedback subscription; presets cannot be loaded there. The second toggle returns to
  normal mode, sends the torque command with every flag 1 and the feedback
  unsubscription; then \<open>load_default_preset\<close> returns \<open>True\<close> and sets the targets to the
  default preset, and \<open>load_custom_preset\<close> returns \<open>True\<close> and sets the targets to the
  stored vector for every slot in range whose name is stored.
\<close>

theorem toggle_twice_restores_load:
  assumes "all_torque_enabled s"
  shows "PASSIVITY_MODE (fst (toggle_all_torque s)) \<and>
     passivity_initialized_motors (fst (toggle_all_torque s)) = replicate 7 False \<and>
     sent (fst (toggle_all_torque s)) =
       sent s @ [''1,'' @ join '','' (replicate (length (motors s)) ''0'') @ ''*'', ''2,1,0,0,0,0,0,0*''] \<and>
     load_default_preset (fst (toggle_all_torque s)) = (fst (toggle_all_torque s), False) \<and>
     load_custom_preset slot (fst (toggle_all_torque s)) = (fst (toggle_all_torque s), False) \<and>
     \<not> PASSIVITY_MODE (fst (toggle_all_torque (fst (toggle_all_torque s)))) \<and>
     passivity_initialized_motors (fst (toggle_all_torque (fst (toggle_all_torque s)))) = replicate 7 False \<and>
     sent (fst (toggle_all_torque (fst (toggle_all_torque s)))) =
       sent (fst (toggle_all_torque s)) @
         [''1,'' @ join '','' (replicate (length (motors s)) ''1'') @ ''*'', ''2,0,0,0,0,0,0,0*''] \<and>
     snd (load_default_preset (fst (toggle_all_torque (fst (toggle_all_torque s))))) \<and>
     target_positions (fst (load_default_preset (fst (toggle_all_torque (fst (toggle_all_torque s)))))) =
       map real_of_int (default_preset s) \<and>
     (case map_of (custom_presets s) (preset_name slot) of
        None \<Rightarrow> load_custom_preset slot (fst (toggle_all_torque (fst (toggle_all_torque s)))) =
                 (fst (toggle_all_torque (fst (toggle_all_torque s))), False)
      | Some preset \<Rightarrow>
          if 0 \<le> slot \<and> slot < 4
          then snd (load_custom_preset slot (fst (toggle_all_torque (fst (toggle_all_torque s))))) \<and>
               target_positions (fst (load_custom_preset slot (fst (toggle_all_torque (fst (toggle_all_torque s)))))) = preset
          else load_custom_preset slot (fst (toggle_all_torque (fst (toggle_all_torque s)))) =
                 (fst (toggle_all_torque (fst (toggle_all_torque s))), False))"
  using assms
  by (simp add: toggle_all_torque_def Let_def send_torque_command_def serial_send_def
      torque_command_def load_default_preset_def load_custom_preset_def send_control_command_def
      split: option.split)

theorem toggle_twice_restores_load_witness:
  "all_torque_enabled started \<and>
   PASSIVITY_MODE (fst (toggle_all_torque started)) \<and>
   passivity_initialized_motors (fst (toggle_all_torque started)) = replicate 7 False \<and>
   sent (fst (toggle_all_torque started)) = [''2,0,0,0,0,0,0,0*'', ''1,0,0,0,0,0,0,0*'', ''2,1,0,0,0,0,0,0*''] \<and>
   sent (fst (toggle_all_torque (fst (toggle_all_torque started)))) =
     [''2,0,0,0,0,0,0,0*'', ''1,0,0,0,0,0,0,0*'', ''2,1,0,0,0,0,0,0*'', ''1,1,1,1,1,1,1,1*'', ''2,0,0,0,0,0,0,0*''] \<and>
   snd (load_default_preset (fst (toggle_all_torque (fst (toggle_all_torque started))))) \<and>
   snd (load_custom_preset 0 (fst (toggle_all_torque (fst (toggle_all_torque started))))) \<and>
   target_positions (fst (load_custom_preset 0 (fst (toggle_all_torque (fst (toggle_all_torque started)))))) =
     [512, 512, 380, 800, 700, 512, 512]"
  using toggle_twice_restores_load [of started 0]
  by (simp add: started_def motor_table_def fresh_controller_def serial_send_def
      builtin_custom_presets_def preset_name_def str_int_def str_nat.simps)

text \<open>
  The parts of the startup load that work: with no preset file the built in presets are
  used, and a loaded mapping is cut to its first 4 entries.
\<close>

lemma load_presets_absent_or_capped:
  "load_custom_presets Missing = Inr builtin_custom_presets \<and>
   load_custom_presets (Loaded presets) = Inr (take 4 presets) \<and>
   length (take 4 presets) \<le> 4"
  by (simp add: load_custom_presets_def)

text \<open>
  Claim C9 asks for the same fallback when the file's contents are malformed, with no
  exception reaching the caller. The code misses that case: \<open>json.load\<close> sits in the
  \<open>try\<close> block of \<open>_load_custom_presets\<close>, but the handler names \<open>FileNotFoundError\<close>
  only. With a preset file that is not JSON, the method does not return the built in
  presets; the decode error leaves it and ends the constructor.
\<close>

theorem malformed_file_escapes:
  "load_custom_presets Malformed \<noteq> Inr builtin_custom_presets \<and>
   load_custom_presets Malformed = Inl JSONDecodeError \<and>
   MotorController_init Malformed True False = Inl JSONDecodeError"
  by (simp add: load_custom_presets_def new_controller_def MotorController_init_def)

subsection \<open>Manual jog stays in range\<close>

lemma update_target_motors: "motors (fst (update_target m d k s)) = motors s"
  by (simp add: update_target_def Let_def)

lemma update_target_target:
  "target_positions (fst (update_target m d k s)) =
     (if \<not> PASSIVITY_MODE s \<and> 0 \<le> m \<and> m < int (length (motors s)) \<and> nat m < length (target_positions s)
      then (target_positions s)[nat m :=
             clamped_step (motors s ! nat m) (target_positions s ! nat m) d k]
      else target_positions s)"
  by (simp add: update_target_def Let_def)

lemma clamped_step_range:
  "real_of_int (min_val c) \<le> t \<Longrightarrow> t \<le> real_of_int (max_val c) \<Longrightarrow> 0 \<le> k \<Longrightarrow>
   real_of_int (min_val c) \<le> clamped_step c t d k \<and> clamped_step c t d k \<le> real_of_int (max_val c)"
  by (simp add: clamped_step_def)

lemma update_target_range:
  assumes "i < length (target_positions s)" "i < length (motors s)"
    "real_of_int (min_val (motors s ! i)) \<le> target_positions s ! i"
    "target_positions s ! i \<le> real_of_int (max_val (motors s ! i))" "0 \<le> k"
  shows "length (target_positions (fst (update_target m d k s))) = length (target_positions s) \<and>
         real_of_int (min_val (motors s ! i)) \<le> target_positions (fst (update_target m d k s)) ! i \<and>
         target_positions (fst (update_target m d k s)) ! i \<le> real_of_int (max_val (motors s ! i))"
proof (cases "nat m = i")
  case True
  then show ?thesis
    using assms clamped_step_range [OF assms(3,4,5), of d]
    by (simp add: update_target_target)
next
  case False
  then show ?thesis
    using assms by (simp add: update_target_target)
qed

lemma update_targets_range:
  assumes "\<forall>(m, d, k) \<in> set calls. 0 \<le> k"
    "i < length (target_positions s)" "i < length (motors s)"
    "real_of_int (min_val (motors s ! i)) \<le> target_positions s ! i"
    "target_positions s ! i \<le> real_of_int (max_val (motors s ! i))"
  shows "real_of_int (min_val (motors s ! i)) \<le> target_positions (update_targets calls s) ! i \<and>
         target_positions (update_targets calls s) ! i \<le> real_of_int (max_val (motors s ! i))"
  using assms
proof (induction calls arbitrary: s)
  case Nil
  then show ?case by simp
next
  case (Cons c calls)
  obtain m d k where c: "c = (m, d, k)" by (cases c) auto
  have k: "0 \<le> k" using Cons.prems(1) c by simp
  note st = update_target_range [OF Cons.prems(2-5) k, of m d]
  note mo = update_target_motors [of m d k s]
  have rest: "\<forall>(m, d, k) \<in> set calls. 0 \<le> k" using Cons.prems(1) by simp
  have "real_of_int (min_val (motors (fst (update_target m d k s)) ! i))
          \<le> target_positions (update_targets calls (fst (update_target m d k s))) ! i \<and>
        target_positions (update_targets calls (fst (update_target m d k s))) ! i
          \<le> real_of_int (max_val (motors (fst (update_target m d k s)) ! i))"
    using Cons.prems(2,3) st by (intro Cons.IH [OF rest]) (simp_all add: mo)
  then show ?case using c by (simp add: mo)
qed

text \<open>
  Claim C4. For a joint whose configuration has min \<open>\<le>\<close> default \<open>\<le>\<close> max, after each call of
  any sequence of \<open>update_target\<close> calls with non-negative step sizes, made on the
  controller as constructed, the joint's target lies between its min and its max.
\<close>

theorem update_target_keeps_range:
  assumes "i < length ms" "min_val (ms ! i) \<le> default_pos (ms ! i)"
    "default_pos (ms ! i) \<le> max_val (ms ! i)"
    "\<forall>(m, d, k) \<in> set calls. 0 \<le> k" "n \<le> length calls"
  shows "real_of_int (min_val (ms ! i))
           \<le> target_positions (update_targets (take n calls) (fresh_controller ms presets f writable dev)) ! i \<and>
         target_positions (update_targets (take n calls) (fresh_controller ms presets f writable dev)) ! i
           \<le> real_of_int (max_val (ms ! i))"
proof -
  let ?s = "fresh_controller ms presets f writable dev"
  have calls: "\<forall>(m, d, k) \<in> set (take n calls). 0 \<le> k"
    using assms(4) by (meson in_set_takeD)
  have m: "motors ?s = ms" and t: "target_positions ?s = map (\<lambda>m. real_of_int (default_pos m)) ms"
    by (simp_all add: fresh_controller_def serial_send_def)
  show ?thesis
    using update_targets_range [OF calls, of i ?s] assms(1-3) by (simp add: m t)
qed

theorem update_target_keeps_range_witness:
  "(1::nat) < length motor_table \<and>
   min_val (motor_table ! 1) \<le> default_pos (motor_table ! 1) \<and>
   default_pos (motor_table ! 1) \<le> max_val (motor_table ! 1) \<and>
   target_positions (update_targets [(1, ''decrease'', 400)] started) ! 1 = 180 \<and>
   target_positions (update_targets [(1, ''decrease'', 400), (1, ''increase'', 1000)] started) ! 1 = 845 \<and>
   real_of_int (min_val (motor_table ! 1))
     \<le> target_positions (update_targets [(1, ''decrease'', 400), (1, ''increase'', 1000)] started) ! 1 \<and>
   target_positions (update_targets [(1, ''decrease'', 400), (1, ''increase'', 1000)] started) ! 1
     \<le> real_of_int (max_val (motor_table ! 1))"
  using update_target_keeps_range [of 1 motor_table
      "[(1, ''decrease'', 400), (1, ''increase'', 1000)]" 2 builtin_custom_presets Missing True False]
  by (simp add: started_def motor_table_def fresh_controller_def serial_send_def update_target_def
      clamped_step_def Let_def)

subsection \<open>Feedback lines and the iteration over the joints\<close>

lemma parse_fields_Some:
  "parse_fields pf parts is = Some vs \<Longrightarrow>
     length vs = length is \<and>
     (\<forall>k < length is. is ! k < length parts \<and> pf (parts ! (is ! k)) = Some (vs ! k))"
proof (induction "is" arbitrary: vs)
  case Nil
  then show ?case by simp
next
  case (Cons i "is")
  from Cons.prems obtain v vs' where
    i: "i < length parts" and v: "pf (parts ! i) = Some v"
    and r: "parse_fields pf parts is = Some vs'" and vs: "vs = v # vs'"
    by (auto split: if_splits option.splits)
  note ih = Cons.IH [OF r]
  show ?case
  proof (intro conjI allI impI)
    show "length vs = length (i # is)" using ih vs by simp
  next
    fix k assume "k < length (i # is)"
    then show "(i # is) ! k < length parts" using i ih by (cases k) auto
  next
    fix k assume "k < length (i # is)"
    then show "pf (parts ! ((i # is) ! k)) = Some (vs ! k)" using v vs ih by (cases k) auto
  qed
qed

lemma parse_fields_upt:
  assumes "parse_fields pf parts [0..<n] = Some vs"
  shows "length vs = n" and "i < n \<Longrightarrow> i < length parts \<and> pf (parts ! i) = Some (vs ! i)"
  using parse_fields_Some [OF assms] by auto

lemma drain_eq: "drain s = (if DEV_MODE s then s else s\<lparr>receive_queue := []\<rparr>)"
proof (induction "receive_queue s" arbitrary: s)
  case Nil
  then show ?case
    by (subst drain.simps) (simp add: get_received_data_def)
next
  case (Cons d ds)
  have "drain s = (if DEV_MODE s then s else drain (s\<lparr>receive_queue := ds\<rparr>))"
    using Cons.hyps(2) [symmetric] by (subst drain.simps) (simp add: get_received_data_def)
  moreover have "drain (s\<lparr>receive_queue := ds\<rparr>) =
      (if DEV_MODE s then s\<lparr>receive_queue := ds\<rparr> else s\<lparr>receive_queue := []\<rparr>)"
    using Cons.hyps(1) [of "s\<lparr>receive_queue := ds\<rparr>"] by simp
  ultimately show ?case by simp
qed

lemma sync_joint_wf:
  "well_formed s \<Longrightarrow> i < length (motors s) \<Longrightarrow> sync_joint nps i s = (sync_step nps i s, Inr ())"
  by (simp add: sync_joint_def sync_step_def well_formed_def set_idle_def Let_def)

lemma sync_step_wf: "well_formed s \<Longrightarrow> well_formed (sync_step nps i s)"
  by (simp add: sync_step_def well_formed_def)

lemma sync_joint_frame:
  "fst (sync_joint nps i s) =
     s\<lparr>target_positions := target_positions (fst (sync_joint nps i s)),
       display_positions := display_positions (fst (sync_joint nps i s)),
       current_positions := current_positions (fst (sync_joint nps i s)),
       passivity_initialized_motors := passivity_initialized_motors (fst (sync_joint nps i s)),
       motor_states := motor_states (fst (sync_joint nps i s))\<rparr>"
  by (simp add: sync_joint_def set_idle_def Let_def)

lemma for_each_sync_frame:
  "fst (for_each (sync_joint nps) is s) =
     s\<lparr>target_positions := target_positions (fst (for_each (sync_joint nps) is s)),
       display_positions := display_positions (fst (for_each (sync_joint nps) is s)),
       current_positions := current_positions (fst (for_each (sync_joint nps) is s)),
       passivity_initialized_motors := passivity_initialized_motors (fst (for_each (sync_joint nps) is s)),
       motor_states := motor_states (fst (for_each (sync_joint nps) is s))\<rparr>"
proof (induction "is" arbitrary: s)
  case Nil
  then show ?case by simp
next
  case (Cons i "is")
  obtain s1 r where b: "sync_joint nps i s = (s1, r)" by (cases "sync_joint nps i s")
  have f1: "s1 = s\<lparr>target_positions := target_positions s1,
       display_positions := display_positions s1,
       current_positions := current_positions s1,
       passivity_initialized_motors := passivity_initialized_motors s1,
       motor_states := motor_states s1\<rparr>"
    using sync_joint_frame [of nps i s] b by simp
  show ?case
  proof (cases r)
    case (Inl e)
    then show ?thesis using b f1 by simp
  next
    case (Inr u)
    then have e: "for_each (sync_joint nps) (i # is) s = for_each (sync_joint nps) is s1"
      using b by simp
    show ?thesis
      unfolding e by (subst Cons.IH [of s1], subst f1) simp
  qed
qed


lemma sync_loop:
  "well_formed s \<Longrightarrow> \<forall>i \<in> set is. i < length (motors s) \<Longrightarrow>
   \<exists>s'. for_each (sync_joint nps) is s = (s', Inr ()) \<and> well_formed s' \<and>
        (\<forall>j < length (motors s).
           target_positions s' ! j = (if j \<in> set is then nps ! j else target_positions s ! j) \<and>
           display_positions s' ! j =
             (if j \<in> set is \<and> \<not> passivity_initialized_motors s ! j then nps ! j else display_positions s ! j) \<and>
           current_positions s' ! j =
             (if j \<in> set is \<and> \<not> passivity_initialized_motors s ! j then nps ! j else current_positions s ! j) \<and>
           passivity_initialized_motors s' ! j = (j \<in> set is \<or> passivity_initialized_motors s ! j) \<and>
           motor_states s' ! j = (if j \<in> set is then IDLE else motor_states s ! j))"
proof (induction "is" arbitrary: s)
  case Nil
  then show ?case by simp
next
  case (Cons i "is")
  let ?s1 = "sync_step nps i s"
  have i: "i < length (motors s)" using Cons.prems by simp
  have step: "sync_joint nps i s = (?s1, Inr ())" using Cons.prems i by (simp add: sync_joint_wf)
  have wf1: "well_formed ?s1" using Cons.prems by (simp add: sync_step_wf)
  have m1: "motors ?s1 = motors s" by (simp add: sync_step_def)
  from Cons.IH [OF wf1] Cons.prems m1
  obtain s' where s': "for_each (sync_joint nps) is ?s1 = (s', Inr ())" "well_formed s'"
     "\<forall>j < length (motors s).
           target_positions s' ! j = (if j \<in> set is then nps ! j else target_positions ?s1 ! j) \<and>
           display_positions s' ! j =
             (if j \<in> set is \<and> \<not> passivity_initialized_motors ?s1 ! j then nps ! j else display_positions ?s1 ! j) \<and>
           current_positions s' ! j =
             (if j \<in> set is \<and> \<not> passivity_initialized_motors ?s1 ! j then nps ! j else current_positions ?s1 ! j) \<and>
           passivity_initialized_motors s' ! j = (j \<in> set is \<or> passivity_initialized_motors ?s1 ! j) \<and>
           motor_states s' ! j = (if j \<in> set is then IDLE else motor_states ?s1 ! j)"
    by auto
  have run: "for_each (sync_joint nps) (i # is) s = (s', Inr ())"
    using step s'(1) by simp
  have eff: "\<forall>j < length (motors s).
           target_positions s' ! j = (if j \<in> set (i # is) then nps ! j else target_positions s ! j) \<and>
           display_positions s' ! j =
             (if j \<in> set (i # is) \<and> \<not> passivity_initialized_motors s ! j then nps ! j else display_positions s ! j) \<and>
           current_positions s' ! j =
             (if j \<in> set (i # is) \<and> \<not> passivity_initialized_motors s ! j then nps ! j else current_positions s ! j) \<and>
           passivity_initialized_motors s' ! j = (j \<in> set (i # is) \<or> passivity_initialized_motors s ! j) \<and>
           motor_states s' ! j = (if j \<in> set (i # is) then IDLE else motor_states s ! j)"
  proof (intro allI impI)
    fix j assume j: "j < length (motors s)"
    have l: "j < length (target_positions s)" "j < length (display_positions s)"
      "j < length (current_positions s)" "j < length (passivity_initialized_motors s)"
      "j < length (motor_states s)"
      using Cons.prems(1) j by (simp_all add: well_formed_def)
    from s'(3) j have a: "target_positions s' ! j = (if j \<in> set is then nps ! j else target_positions ?s1 ! j)"
      "display_positions s' ! j =
             (if j \<in> set is \<and> \<not> passivity_initialized_motors ?s1 ! j then nps ! j else display_positions ?s1 ! j)"
      "current_positions s' ! j =
             (if j \<in> set is \<and> \<not> passivity_initialized_motors ?s1 ! j then nps ! j else current_positions ?s1 ! j)"
      "passivity_initialized_motors s' ! j = (j \<in> set is \<or> passivity_initialized_motors ?s1 ! j)"
      "motor_states s' ! j = (if j \<in> set is then IDLE else motor_states ?s1 ! j)"
      by simp_all
    show "target_positions s' ! j = (if j \<in> set (i # is) then nps ! j else target_positions s ! j) \<and>
           display_positions s' ! j =
             (if j \<in> set (i # is) \<and> \<not> passivity_initialized_motors s ! j then nps ! j else display_positions s ! j) \<and>
           current_positions s' ! j =
             (if j \<in> set (i # is) \<and> \<not> passivity_initialized_motors s ! j then nps ! j else current_positions s ! j) \<and>
           passivity_initialized_motors s' ! j = (j \<in> set (i # is) \<or> passivity_initialized_motors s ! j) \<and>
           motor_states s' ! j = (if j \<in> set (i # is) then IDLE else motor_states s ! j)"
      unfolding a using l by (cases "j = i") (auto simp: sync_step_def nth_list_update)
  qed
  show ?case using run s'(2) eff by blast
qed

text \<open>A feedback line that decodes, handled in passivity mode on a well formed state.\<close>

lemma process_feedback_sync:
  assumes "PASSIVITY_MODE s" "\<not> DEV_MODE s" "well_formed s"
    "receive_queue s = (''Feedback:'' @ body) # rest"
    "parse_fields pf (split_comma body) [0..<length (motors s)] = Some report"
  shows "well_formed (process_feedback pf pint s) \<and>
         motors (process_feedback pf pint s) = motors s \<and>
         PASSIVITY_MODE (process_feedback pf pint s) \<and>
         \<not> DEV_MODE (process_feedback pf pint s) \<and>
         receive_queue (process_feedback pf pint s) = rest \<and>
         (\<forall>j < length (motors s).
            target_positions (process_feedback pf pint s) ! j = report ! j \<and>
            display_positions (process_feedback pf pint s) ! j =
              (if passivity_initialized_motors s ! j then display_positions s ! j else report ! j) \<and>
            current_positions (process_feedback pf pint s) ! j =
              (if passivity_initialized_motors s ! j then current_positions s ! j else report ! j) \<and>
            passivity_initialized_motors (process_feedback pf pint s) ! j \<and>
            motor_states (process_feedback pf pint s) ! j = IDLE)"
proof -
  let ?s1 = "s\<lparr>receive_queue := rest\<rparr>"
  let ?n = "length (motors s)"
  have wf1: "well_formed ?s1" using assms(3) by (simp add: well_formed_def)
  have len: "\<not> length (split_comma body) < ?n"
    using parse_fields_upt(2) [OF assms(5), of "?n - 1"] by (cases "?n") auto
  from sync_loop [OF wf1, of "[0..<?n]" report]
  obtain s2 where s2: "for_each (sync_joint report) [0..<?n] ?s1 = (s2, Inr ())" "well_formed s2"
    "\<forall>j < ?n.
           target_positions s2 ! j = report ! j \<and>
           display_positions s2 ! j =
             (if \<not> passivity_initialized_motors s ! j then report ! j else display_positions s ! j) \<and>
           current_positions s2 ! j =
             (if \<not> passivity_initialized_motors s ! j then report ! j else current_positions s ! j) \<and>
           passivity_initialized_motors s2 ! j \<and>
           motor_states s2 ! j = IDLE"
    by auto
  have fr: "motors s2 = motors s" "PASSIVITY_MODE s2 = PASSIVITY_MODE s"
    "DEV_MODE s2 = DEV_MODE s" "receive_queue s2 = rest"
    by (subst for_each_sync_frame [of report "[0..<?n]" ?s1, unfolded s2(1) fst_conv], simp)+
  define data where "data = ''Feedback:'' @ body"
  have d: "startswith data ''Feedback:''" "\<not> startswith data ''Positions:''"
    "drop (length ''Feedback:'') data = body" "data \<noteq> []"
    by (simp_all add: data_def startswith_def)
  have q: "receive_queue s = data # rest" using assms(4) by (simp add: data_def)
  have pf: "process_feedback pf pint s =
      (if is_passivity_first s2 \<and> list_all (\<lambda>b. b) (passivity_initialized_motors s2)
       then s2\<lparr>is_passivity_first := False\<rparr> else s2)"
    using assms(1,2,5) q d len s2(1)
    by (simp add: process_feedback_def get_received_data_def Let_def)
  show ?thesis
    unfolding pf using s2(2,3) fr assms(1,2) by (simp add: well_formed_def)
qed

text \<open>
  The constructed controller is well formed, and the mode switch keeps a controller with
  7 motors well formed; \<open>process_feedback_sync\<close> above and \<open>update_positions_wf\<close> below
  show the same for the feedback handler and the display smoother.
\<close>

lemma well_formed_fresh: "well_formed (fresh_controller motor_table presets f writable dev)"
  by (simp add: well_formed_def fresh_controller_def serial_send_def motor_table_def)

lemma well_formed_toggle:
  "well_formed s \<Longrightarrow> length (motors s) = 7 \<Longrightarrow> well_formed (fst (toggle_all_torque s))"
  by (simp add: well_formed_def toggle_all_torque_def send_torque_command_def serial_send_def Let_def)

subsection \<open>First feedback after entering passivity mode\<close>

text \<open>
  Claim C1. In passivity mode, when a feedback line that decodes to \<open>report\<close> is handled
  and joint \<open>i\<close> is not yet initialised, \<open>process_feedback\<close> sets the joint's current,
  display and target position to \<open>report ! i\<close> exactly and marks the joint initialised.
\<close>

theorem first_feedback_absorbed:
  assumes "PASSIVITY_MODE s" "\<not> DEV_MODE s" "well_formed s"
    "receive_queue s = (''Feedback:'' @ body) # rest"
    "parse_fields pf (split_comma body) [0..<length (motors s)] = Some report"
    "i < length (motors s)" "\<not> passivity_initialized_motors s ! i"
  shows "current_positions (process_feedback pf pint s) ! i = report ! i \<and>
         display_positions (process_feedback pf pint s) ! i = report ! i \<and>
         target_positions (process_feedback pf pint s) ! i = report ! i \<and>
         passivity_initialized_motors (process_feedback pf pint s) ! i"
  using process_feedback_sync [OF assms(1-5), of pint] assms(6,7) by simp

lemma in_passivity_eval:
  "in_passivity lines =
     \<lparr>motors = motor_table,
      current_positions = [512, 512, 380, 800, 700, 512, 512],
      target_positions = [512, 512, 380, 800, 700, 512, 512],
      motor_states = [IDLE, IDLE, IDLE, IDLE, IDLE, IDLE, IDLE],
      all_torque_enabled = False,
      torque_enabled = [False, False, False, False, False, False, False],
      is_passivity_first = True,
      passivity_initialized_motors = [False, False, False, False, False, False, False],
      display_positions = [512, 512, 380, 800, 700, 512, 512],
      default_preset = [512, 512, 380, 800, 700, 512, 512],
      custom_presets = builtin_custom_presets,
      waiting_for_positions = False,
      passivity_presets = [],
      PASSIVITY_MODE = True,
      DEV_MODE = False,
      receive_queue = lines,
      sent = [''2,0,0,0,0,0,0,0*'', ''1,0,0,0,0,0,0,0*'', ''2,1,0,0,0,0,0,0*''],
      stored_presets = Missing,
      storage_writable = True\<rparr>"
  by (simp add: in_passivity_def started_def fresh_controller_def toggle_all_torque_def
      send_torque_command_def torque_command_def serial_send_def Let_def motor_table_def
      eval_nat_numeral)

lemma parse_example:
  "parse_fields float_of_digits (split_comma ''600,500,400,810,710,520,530'') [0..<length motor_table] =
     Some [600, 500, 400, 810, 710, 520, 530]"
  by (simp add: float_of_digits_def digit_val_def upt_rec motor_table_def)

theorem first_feedback_absorbed_witness:
  "PASSIVITY_MODE (in_passivity [''Feedback:600,500,400,810,710,520,530'']) \<and>
   \<not> passivity_initialized_motors (in_passivity [''Feedback:600,500,400,810,710,520,530'']) ! 0 \<and>
   current_positions (process_feedback float_of_digits int_of_digits
      (in_passivity [''Feedback:600,500,400,810,710,520,530''])) ! 0 = 600 \<and>
   display_positions (process_feedback float_of_digits int_of_digits
      (in_passivity [''Feedback:600,500,400,810,710,520,530''])) ! 0 = 600 \<and>
   target_positions (process_feedback float_of_digits int_of_digits
      (in_passivity [''Feedback:600,500,400,810,710,520,530''])) ! 0 = 600 \<and>
   passivity_initialized_motors (process_feedback float_of_digits int_of_digits
      (in_passivity [''Feedback:600,500,400,810,710,520,530''])) ! 0"
proof -
  let ?s = "in_passivity [''Feedback:600,500,400,810,710,520,530'']"
  have h1: "PASSIVITY_MODE ?s" and h2: "\<not> DEV_MODE ?s" and h3: "well_formed ?s"
    and h4: "receive_queue ?s = (''Feedback:'' @ ''600,500,400,810,710,520,530'') # []"
    and h6: "0 < length (motors ?s)" and h7: "\<not> passivity_initialized_motors ?s ! 0"
    by (simp_all add: in_passivity_eval well_formed_def motor_table_def)
  have h5: "parse_fields float_of_digits (split_comma ''600,500,400,810,710,520,530'')
      [0..<length (motors ?s)] = Some [600, 500, 400, 810, 710, 520, 530]"
    using parse_example by (simp add: in_passivity_eval)
  show ?thesis
    using first_feedback_absorbed [OF h1 h2 h3 h4 h5 h6 h7, of int_of_digits] h1 h7 by simp
qed

subsection \<open>Display smoother\<close>

lemma smooth_joint_wf:
  "well_formed s \<Longrightarrow> i < length (motors s) \<Longrightarrow> smooth_joint fl i s = (smooth_step fl i s, Inr ())"
  by (simp add: smooth_joint_def smooth_step_def smoothed_def well_formed_def Let_def)

lemma smooth_step_wf: "well_formed s \<Longrightarrow> well_formed (smooth_step fl i s)"
  by (simp add: smooth_step_def well_formed_def Let_def)

lemma smooth_step_frame:
  "motors (smooth_step fl i s) = motors s" "target_positions (smooth_step fl i s) = target_positions s"
  "PASSIVITY_MODE (smooth_step fl i s) = PASSIVITY_MODE s"
  "DEV_MODE (smooth_step fl i s) = DEV_MODE s" "receive_queue (smooth_step fl i s) = receive_queue s"
  "passivity_initialized_motors (smooth_step fl i s) = passivity_initialized_motors s"
  by (simp_all add: smooth_step_def Let_def)

lemma smooth_loop:
  "well_formed s \<Longrightarrow> distinct is \<Longrightarrow> \<forall>i \<in> set is. i < length (motors s) \<Longrightarrow>
   \<exists>s'. for_each (smooth_joint fl) is s = (s', Inr ()) \<and> well_formed s' \<and>
        motors s' = motors s \<and> target_positions s' = target_positions s \<and>
        PASSIVITY_MODE s' = PASSIVITY_MODE s \<and> DEV_MODE s' = DEV_MODE s \<and>
        receive_queue s' = receive_queue s \<and>
        passivity_initialized_motors s' = passivity_initialized_motors s \<and>
        (\<forall>j < length (motors s).
           display_positions s' ! j =
             (if j \<in> set is then smoothed fl (target_positions s ! j) (display_positions s ! j)
              else display_positions s ! j) \<and>
           motor_states s' ! j =
             (if j \<in> set is
              then settled fl (target_positions s ! j)
                     (smoothed fl (target_positions s ! j) (display_positions s ! j)) (motor_states s ! j)
              else motor_states s ! j))"
proof (induction "is" arbitrary: s)
  case Nil
  then show ?case by simp
next
  case (Cons i "is")
  let ?s1 = "smooth_step fl i s"
  have i: "i < length (motors s)" and ni: "i \<notin> set is" and di: "distinct is"
    using Cons.prems by simp_all
  have step: "smooth_joint fl i s = (?s1, Inr ())" using Cons.prems(1) i by (simp add: smooth_joint_wf)
  have wf1: "well_formed ?s1" using Cons.prems(1) by (simp add: smooth_step_wf)
  have rest: "\<forall>i \<in> set is. i < length (motors ?s1)"
    using Cons.prems(3) by (simp add: smooth_step_frame)
  from Cons.IH [OF wf1 di rest]
  obtain s' where s': "for_each (smooth_joint fl) is ?s1 = (s', Inr ())" "well_formed s'"
    "motors s' = motors s" "target_positions s' = target_positions s"
    "PASSIVITY_MODE s' = PASSIVITY_MODE s" "DEV_MODE s' = DEV_MODE s"
    "receive_queue s' = receive_queue s"
    "passivity_initialized_motors s' = passivity_initialized_motors s"
    "\<forall>j < length (motors s).
           display_positions s' ! j =
             (if j \<in> set is then smoothed fl (target_positions s ! j) (display_positions ?s1 ! j)
              else display_positions ?s1 ! j) \<and>
           motor_states s' ! j =
             (if j \<in> set is
              then settled fl (target_positions s ! j)
                     (smoothed fl (target_positions s ! j) (display_positions ?s1 ! j)) (motor_states ?s1 ! j)
              else motor_states ?s1 ! j)"
    by (auto simp: smooth_step_frame)
  have run: "for_each (smooth_joint fl) (i # is) s = (s', Inr ())"
    using step s'(1) by simp
  have eff: "\<forall>j < length (motors s).
           display_positions s' ! j =
             (if j \<in> set (i # is) then smoothed fl (target_positions s ! j) (display_positions s ! j)
              else display_positions s ! j) \<and>
           motor_states s' ! j =
             (if j \<in> set (i # is)
              then settled fl (target_positions s ! j)
                     (smoothed fl (target_positions s ! j) (display_positions s ! j)) (motor_states s ! j)
              else motor_states s ! j)"
  proof (intro allI impI)
    fix j assume j: "j < length (motors s)"
    have l: "j < length (display_positions s)" "j < length (motor_states s)"
      using Cons.prems(1) j by (simp_all add: well_formed_def)
    from s'(9) j have a: "display_positions s' ! j =
             (if j \<in> set is then smoothed fl (target_positions s ! j) (display_positions ?s1 ! j)
              else display_positions ?s1 ! j)"
      "motor_states s' ! j =
             (if j \<in> set is
              then settled fl (target_positions s ! j)
                     (smoothed fl (target_positions s ! j) (display_positions ?s1 ! j)) (motor_states ?s1 ! j)
              else motor_states ?s1 ! j)"
      by simp_all
    show "display_positions s' ! j =
             (if j \<in> set (i # is) then smoothed fl (target_positions s ! j) (display_positions s ! j)
              else display_positions s ! j) \<and>
           motor_states s' ! j =
             (if j \<in> set (i # is)
              then settled fl (target_positions s ! j)
                     (smoothed fl (target_positions s ! j) (display_positions s ! j)) (motor_states s ! j)
              else motor_states s ! j)"
      unfolding a using l ni
      by (cases "j = i") (auto simp: smooth_step_def settled_def Let_def nth_list_update)
  qed
  show ?case using run s'(2-8) eff by blast
qed

lemma update_positions_wf:
  assumes "well_formed s"
  shows "snd (update_positions fl s) = Inr () \<and> well_formed (fst (update_positions fl s)) \<and>
         motors (fst (update_positions fl s)) = motors s \<and>
         target_positions (fst (update_positions fl s)) = target_positions s \<and>
         PASSIVITY_MODE (fst (update_positions fl s)) = PASSIVITY_MODE s \<and>
         DEV_MODE (fst (update_positions fl s)) = DEV_MODE s \<and>
         receive_queue (fst (update_positions fl s)) = receive_queue s \<and>
         passivity_initialized_motors (fst (update_positions fl s)) = passivity_initialized_motors s \<and>
         (\<forall>j < length (motors s).
            display_positions (fst (update_positions fl s)) ! j =
              smoothed fl (target_positions s ! j) (display_positions s ! j) \<and>
            current_positions (fst (update_positions fl s)) ! j =
              smoothed fl (target_positions s ! j) (display_positions s ! j) \<and>
            motor_states (fst (update_positions fl s)) ! j =
              settled fl (target_positions s ! j)
                (smoothed fl (target_positions s ! j) (display_positions s ! j)) (motor_states s ! j))"
proof -
  from smooth_loop [OF assms, of "[0..<length (motors s)]"]
  obtain s' where s': "for_each (smooth_joint fl) [0..<length (motors s)] s = (s', Inr ())" "well_formed s'"
    "motors s' = motors s" "target_positions s' = target_positions s"
    "PASSIVITY_MODE s' = PASSIVITY_MODE s" "DEV_MODE s' = DEV_MODE s"
    "receive_queue s' = receive_queue s"
    "passivity_initialized_motors s' = passivity_initialized_motors s"
    "\<forall>j < length (motors s).
           display_positions s' ! j = smoothed fl (target_positions s ! j) (display_positions s ! j) \<and>
           motor_states s' ! j =
             settled fl (target_positions s ! j)
                     (smoothed fl (target_positions s ! j) (display_positions s ! j)) (motor_states s ! j)"
    by auto
  have u: "update_positions fl s = (s'\<lparr>current_positions := display_positions s'\<rparr>, Inr ())"
    using s'(1) by (simp add: update_positions_def)
  show ?thesis
    unfolding u using s'(2-9) by (simp add: well_formed_def)
qed

subsection \<open>Joint states in passivity mode\<close>

lemma ui_smoothness_bounds: "1485 / 10000 \<le> ui_smoothness" "ui_smoothness \<le> 1515 / 10000"
  by (simp_all add: ui_smoothness_def)

lemma smoothed_at_rest: "fl 0 = 0 \<Longrightarrow> smoothed fl t t = t"
  by (simp add: smoothed_def)

text \<open>
  One step from 600 towards 700, with any rounding that is accurate to one percent
  between 1 and 1000: the display position is still more than 2 away from the target.
\<close>

lemma far_after_one_step:
  assumes acc: "\<forall>x. 1 \<le> \<bar>x\<bar> \<and> \<bar>x\<bar> \<le> 1000 \<longrightarrow> \<bar>fl x - x\<bar> \<le> \<bar>x\<bar> / 100"
  shows "smoothed fl 700 600 = fl (600 + fl (fl 100 * ui_smoothness))"
    and "2 \<le> \<bar>fl (fl (600 + fl (fl 100 * ui_smoothness)) - 700)\<bar>"
proof -
  have A: "\<bar>fl x - x\<bar> \<le> \<bar>x\<bar> / 100" if "1 \<le> \<bar>x\<bar>" "\<bar>x\<bar> \<le> 1000" for x
    using acc that by blast
  have a: "99 \<le> fl 100" "fl 100 \<le> 101"
    using A [of 100] by simp_all
  have k: "0 \<le> ui_smoothness" using ui_smoothness_bounds(1) by simp
  have lo: "99 * ui_smoothness \<le> fl 100 * ui_smoothness"
    using a(1) k by (rule mult_right_mono)
  have hi: "fl 100 * ui_smoothness \<le> 101 * ui_smoothness"
    using a(2) k by (rule mult_right_mono)
  have p: "147 / 10 \<le> fl 100 * ui_smoothness" "fl 100 * ui_smoothness \<le> 1531 / 100"
    using lo hi ui_smoothness_bounds by linarith+
  have rp: "1 \<le> \<bar>fl 100 * ui_smoothness\<bar>" "\<bar>fl 100 * ui_smoothness\<bar> \<le> 1000"
    using p by linarith+
  have b: "145 / 10 \<le> fl (fl 100 * ui_smoothness)" "fl (fl 100 * ui_smoothness) \<le> 155 / 10"
    using A [OF rp] p by argo+
  have rb: "1 \<le> \<bar>600 + fl (fl 100 * ui_smoothness)\<bar>"
    "\<bar>600 + fl (fl 100 * ui_smoothness)\<bar> \<le> 1000"
    using b by linarith+
  have c: "608 \<le> fl (600 + fl (fl 100 * ui_smoothness))"
    "fl (600 + fl (fl 100 * ui_smoothness)) \<le> 622"
    using A [OF rb] b by argo+
  have rc: "1 \<le> \<bar>fl (600 + fl (fl 100 * ui_smoothness)) - 700\<bar>"
    "\<bar>fl (600 + fl (fl 100 * ui_smoothness)) - 700\<bar> \<le> 1000"
    using c by linarith+
  show "2 \<le> \<bar>fl (fl (600 + fl (fl 100 * ui_smoothness)) - 700)\<bar>"
    using A [OF rc] c by argo
  show "smoothed fl 700 600 = fl (600 + fl (fl 100 * ui_smoothness))"
    using a(1) by (simp add: smoothed_def)
qed

text \<open>Passivity mode entered, two feedback lines queued, the first one handled.\<close>

lemma parse_example2:
  "parse_fields float_of_digits (split_comma ''700,500,400,810,710,520,530'') [0..<length motor_table] =
     Some [700, 500, 400, 810, 710, 520, 530]"
  by (simp add: float_of_digits_def digit_val_def upt_rec motor_table_def)

lemma synced_example:
  "PASSIVITY_MODE (process_feedback float_of_digits int_of_digits
      (in_passivity [''Feedback:600,500,400,810,710,520,530'', ''Feedback:700,500,400,810,710,520,530'']))"
  "\<not> DEV_MODE (process_feedback float_of_digits int_of_digits
      (in_passivity [''Feedback:600,500,400,810,710,520,530'', ''Feedback:700,500,400,810,710,520,530'']))"
  "well_formed (process_feedback float_of_digits int_of_digits
      (in_passivity [''Feedback:600,500,400,810,710,520,530'', ''Feedback:700,500,400,810,710,520,530'']))"
  "receive_queue (process_feedback float_of_digits int_of_digits
      (in_passivity [''Feedback:600,500,400,810,710,520,530'', ''Feedback:700,500,400,810,710,520,530''])) =
     [''Feedback:'' @ ''700,500,400,810,710,520,530'']"
  "motors (process_feedback float_of_digits int_of_digits
      (in_passivity [''Feedback:600,500,400,810,710,520,530'', ''Feedback:700,500,400,810,710,520,530''])) =
     motor_table"
  "passivity_initialized_motors (process_feedback float_of_digits int_of_digits
      (in_passivity [''Feedback:600,500,400,810,710,520,530'', ''Feedback:700,500,400,810,710,520,530''])) ! 0"
  "display_positions (process_feedback float_of_digits int_of_digits
      (in_passivity [''Feedback:600,500,400,810,710,520,530'', ''Feedback:700,500,400,810,710,520,530''])) ! 0 = 600"
  "target_positions (process_feedback float_of_digits int_of_digits
      (in_passivity [''Feedback:600,500,400,810,710,520,530'', ''Feedback:700,500,400,810,710,520,530''])) ! 0 = 600"
proof -
  let ?s = "in_passivity [''Feedback:600,500,400,810,710,520,530'', ''Feedback:700,500,400,810,710,520,530'']"
  have h1: "PASSIVITY_MODE ?s" and h2: "\<not> DEV_MODE ?s" and h3: "well_formed ?s"
    and h4: "receive_queue ?s = (''Feedback:'' @ ''600,500,400,810,710,520,530'') #
                [''Feedback:'' @ ''700,500,400,810,710,520,530'']"
    and h6: "0 < length (motors ?s)" and h7: "\<not> passivity_initialized_motors ?s ! 0"
    and m: "motors ?s = motor_table"
    by (simp_all add: in_passivity_eval well_formed_def motor_table_def)
  have h5: "parse_fields float_of_digits (split_comma ''600,500,400,810,710,520,530'')
      [0..<length (motors ?s)] = Some [600, 500, 400, 810, 710, 520, 530]"
    using parse_example by (simp add: in_passivity_eval)
  note r = process_feedback_sync [OF h1 h2 h3 h4 h5, of int_of_digits]
  show "PASSIVITY_MODE (process_feedback float_of_digits int_of_digits ?s)"
    "\<not> DEV_MODE (process_feedback float_of_digits int_of_digits ?s)"
    "well_formed (process_feedback float_of_digits int_of_digits ?s)"
    "receive_queue (process_feedback float_of_digits int_of_digits ?s) =
       [''Feedback:'' @ ''700,500,400,810,710,520,530'']"
    "motors (process_feedback float_of_digits int_of_digits ?s) = motor_table"
    "passivity_initialized_motors (process_feedback float_of_digits int_of_digits ?s) ! 0"
    "display_positions (process_feedback float_of_digits int_of_digits ?s) ! 0 = 600"
    "target_positions (process_feedback float_of_digits int_of_digits ?s) ! 0 = 600"
    using r h6 h7 m by simp_all
qed

text \<open>
  Claim C8 says that in passivity mode every joint is \<open>IDLE\<close> after a feedback event and
  that no joint is seen \<open>MOVING\<close>, also after the smoother tick of the same main loop
  iteration. The code breaks it. Passivity mode is entered on the constructed controller
  and two feedback lines are queued, 600 and then 700 for joint 0. For every rounding
  \<open>fl\<close> that leaves 0 alone and is accurate to one percent between 1 and 1000 (rounding to
  the nearest double is far more accurate there), the second
  main loop iteration ends in passivity mode with joint 0 \<open>MOVING\<close>: \<open>process_feedback\<close>
  has set it to \<open>IDLE\<close>, and \<open>update_positions\<close> sets it to \<open>MOVING\<close> again.
\<close>

theorem moving_seen_in_passivity:
  assumes fl0: "fl 0 = 0"
    and acc: "\<forall>x. 1 \<le> \<bar>x\<bar> \<and> \<bar>x\<bar> \<le> 1000 \<longrightarrow> \<bar>fl x - x\<bar> \<le> \<bar>x\<bar> / 100"
  shows "PASSIVITY_MODE (fst (app_update fl float_of_digits int_of_digits
     (fst (app_update fl float_of_digits int_of_digits
       (in_passivity [''Feedback:600,500,400,810,710,520,530'', ''Feedback:700,500,400,810,710,520,530''])))))
   \<and>
   motor_states (fst (app_update fl float_of_digits int_of_digits
     (fst (app_update fl float_of_digits int_of_digits
       (in_passivity [''Feedback:600,500,400,810,710,520,530'', ''Feedback:700,500,400,810,710,520,530''])))))
     ! 0 = MOVING"
proof -
  let ?s1 = "process_feedback float_of_digits int_of_digits
      (in_passivity [''Feedback:600,500,400,810,710,520,530'', ''Feedback:700,500,400,810,710,520,530''])"
  let ?s2 = "fst (update_positions fl ?s1)"
  let ?s3 = "process_feedback float_of_digits int_of_digits ?s2"
  let ?s4 = "fst (update_positions fl ?s3)"
  note up1 = update_positions_wf [OF synced_example(3), of fl]
  have p2: "PASSIVITY_MODE ?s2" and d2: "\<not> DEV_MODE ?s2" and wf2: "well_formed ?s2"
    and q2: "receive_queue ?s2 = (''Feedback:'' @ ''700,500,400,810,710,520,530'') # []"
    and m2: "motors ?s2 = motor_table"
    and i2: "passivity_initialized_motors ?s2 ! 0"
    using up1 synced_example(1,2,4,5,6) by simp_all
  have n: "0 < length motor_table" by (simp add: motor_table_def)
  have dp2: "display_positions ?s2 ! 0 = 600"
    using up1 synced_example(5,7,8) n by (simp add: smoothed_at_rest [where fl = fl, OF fl0])
  have h5: "parse_fields float_of_digits (split_comma ''700,500,400,810,710,520,530'')
      [0..<length (motors ?s2)] = Some [700, 500, 400, 810, 710, 520, 530]"
    using parse_example2 by (simp add: m2)
  note r = process_feedback_sync [OF p2 d2 wf2 q2 h5, of int_of_digits]
  have wf3: "well_formed ?s3" and p3: "PASSIVITY_MODE ?s3" and m3: "motors ?s3 = motor_table"
    and t3: "target_positions ?s3 ! 0 = 700" and d3: "display_positions ?s3 ! 0 = 600"
    and st3: "motor_states ?s3 ! 0 = IDLE"
    using r m2 n i2 dp2 by simp_all
  note up3 = update_positions_wf [OF wf3, of fl]
  have p4: "PASSIVITY_MODE ?s4" using up3 p3 by simp
  have "motor_states ?s4 ! 0 = settled fl 700 (smoothed fl 700 600) IDLE"
    using up3 m3 n t3 d3 st3 by simp
  then have st4: "motor_states ?s4 ! 0 = MOVING"
    using far_after_one_step [OF acc] by (simp add: settled_def)
  show ?thesis
    using p4 st4 by (simp add: app_update_def)
qed

theorem moving_seen_in_passivity_witness:
  "PASSIVITY_MODE (fst (app_update (\<lambda>x. x) float_of_digits int_of_digits
     (fst (app_update (\<lambda>x. x) float_of_digits int_of_digits
       (in_passivity [''Feedback:600,500,400,810,710,520,530'', ''Feedback:700,500,400,810,710,520,530''])))))
   \<and>
   motor_states (fst (app_update (\<lambda>x. x) float_of_digits int_of_digits
     (fst (app_update (\<lambda>x. x) float_of_digits int_of_digits
       (in_passivity [''Feedback:600,500,400,810,710,520,530'', ''Feedback:700,500,400,810,710,520,530''])))))
     ! 0 = MOVING"
  using moving_seen_in_passivity [of "\<lambda>x. x"] by simp

subsection \<open>Feedback lines of the wrong length\<close>

text \<open>
  Claim C6, amended. A feedback line with fewer fields than there are joints never
  decodes and is dropped: handling it, in any mode, changes no target, display or current
  position, no joint state, no torque flag and no synchronisation flag. Whenever a line
  does decode, the decoded vector has one entry per joint, and the line has at least
  that many fields.
\<close>

theorem short_feedback_rejected:
  assumes "receive_queue s = (''Feedback:'' @ body) # rest"
    "length (split_comma body) < length (motors s)"
  shows "target_positions (process_feedback pf pint s) = target_positions s \<and>
         display_positions (process_feedback pf pint s) = display_positions s \<and>
         current_positions (process_feedback pf pint s) = current_positions s \<and>
         motor_states (process_feedback pf pint s) = motor_states s \<and>
         torque_enabled (process_feedback pf pint s) = torque_enabled s \<and>
         passivity_initialized_motors (process_feedback pf pint s) = passivity_initialized_motors s \<and>
         parse_fields pf (split_comma body) [0..<length (motors s)] = None \<and>
         (\<forall>parts report. parse_fields pf parts [0..<length (motors s)] = Some report \<longrightarrow>
            length report = length (motors s) \<and> length (motors s) \<le> length parts)"
proof -
  define data where "data = ''Feedback:'' @ body"
  have d: "startswith data ''Feedback:''" "\<not> startswith data ''Positions:''"
    "drop (length ''Feedback:'') data = body" "data \<noteq> []"
    by (simp_all add: data_def startswith_def)
  have q: "receive_queue s = data # rest" using assms(1) by (simp add: data_def)
  have pf: "process_feedback pf pint s =
      (if \<not> PASSIVITY_MODE s \<and> \<not> waiting_for_positions s then drain s
       else if DEV_MODE s then s else s\<lparr>receive_queue := rest\<rparr>)"
    using q d assms(2) by (simp add: process_feedback_def get_received_data_def Let_def)
  have len: "length report = length (motors s) \<and> length (motors s) \<le> length parts"
    if "parse_fields pf parts [0..<length (motors s)] = Some report" for parts report
    using parse_fields_upt(1) [OF that] parse_fields_upt(2) [OF that, of "length (motors s) - 1"]
    by (cases "length (motors s)") auto
  have none: "parse_fields pf (split_comma body) [0..<length (motors s)] = None"
  proof (cases "parse_fields pf (split_comma body) [0..<length (motors s)]")
    case None
    then show ?thesis .
  next
    case (Some report)
    then show ?thesis using len [OF Some] assms(2) by simp
  qed
  show ?thesis
    unfolding pf using none len by (simp add: drain_eq)
qed

theorem short_feedback_rejected_witness:
  "length (split_comma ''600,500,400,810,710,520'') < length (motors (in_passivity [''Feedback:600,500,400,810,710,520''])) \<and>
   target_positions (process_feedback float_of_digits int_of_digits (in_passivity [''Feedback:600,500,400,810,710,520''])) =
     [512, 512, 380, 800, 700, 512, 512] \<and>
   display_positions (process_feedback float_of_digits int_of_digits (in_passivity [''Feedback:600,500,400,810,710,520''])) =
     [512, 512, 380, 800, 700, 512, 512] \<and>
   motor_states (process_feedback float_of_digits int_of_digits (in_passivity [''Feedback:600,500,400,810,710,520''])) =
     [IDLE, IDLE, IDLE, IDLE, IDLE, IDLE, IDLE] \<and>
   length [600, 500, 400, 810, 710, 520, 530 :: real] = length motor_table"
proof -
  let ?s = "in_passivity [''Feedback:600,500,400,810,710,520'']"
  have h1: "receive_queue ?s = (''Feedback:'' @ ''600,500,400,810,710,520'') # []"
    by (simp add: in_passivity_eval)
  have h2: "length (split_comma ''600,500,400,810,710,520'') < length (motors ?s)"
    by (simp add: in_passivity_eval motor_table_def)
  show ?thesis
    using short_feedback_rejected [OF h1 h2, of float_of_digits int_of_digits] h2
    by (simp add: in_passivity_eval motor_table_def)
qed

text \<open>
  Claim C6, as stated, fails: a feedback line with 8 fields, handled in passivity mode
  with 7 joints, is not rejected; it moves the target of joint 0 from 512 to 600.
\<close>

theorem long_feedback_accepted:
  "length (split_comma ''600,500,400,810,710,520,530,999'') = 8 \<and>
   length (motors (in_passivity [''Feedback:600,500,400,810,710,520,530,999''])) = 7 \<and>
   target_positions (in_passivity [''Feedback:600,500,400,810,710,520,530,999'']) ! 0 = 512 \<and>
   target_positions (process_feedback float_of_digits int_of_digits
      (in_passivity [''Feedback:600,500,400,810,710,520,530,999''])) ! 0 = 600"
proof -
  let ?s = "in_passivity [''Feedback:600,500,400,810,710,520,530,999'']"
  have h1: "PASSIVITY_MODE ?s" and h2: "\<not> DEV_MODE ?s" and h3: "well_formed ?s"
    and h4: "receive_queue ?s = (''Feedback:'' @ ''600,500,400,810,710,520,530,999'') # []"
    and h6: "0 < length (motors ?s)" and m: "length (motors ?s) = 7"
    and t: "target_positions ?s ! 0 = 512"
    by (simp_all add: in_passivity_eval well_formed_def motor_table_def)
  have h5: "parse_fields float_of_digits (split_comma ''600,500,400,810,710,520,530,999'')
      [0..<length (motors ?s)] = Some [600, 500, 400, 810, 710, 520, 530]"
    by (simp add: in_passivity_eval float_of_digits_def digit_val_def upt_rec motor_table_def)
  have l: "length (split_comma ''600,500,400,810,710,520,530,999'') = 8" by simp
  show ?thesis
    using process_feedback_sync [OF h1 h2 h3 h4 h5, of int_of_digits] h6 m t l by simp
qed

subsection \<open>Saving a preset in passivity mode\<close>

lemma for_each_sync_untouched:
  "untouched s (fst (for_each (sync_joint nps) is (s\<lparr>receive_queue := q\<rparr>)))"
  "passivity_presets (fst (for_each (sync_joint nps) is (s\<lparr>receive_queue := q\<rparr>))) = passivity_presets s"
  "receive_queue (fst (for_each (sync_joint nps) is (s\<lparr>receive_queue := q\<rparr>))) = q"
  unfolding untouched_def
  by ((intro conjI)?; subst for_each_sync_frame; simp)+

lemma finish_sync:
  "(case X of (s2, Inl e) \<Rightarrow> s2
    | (s2, Inr u) \<Rightarrow> if P s2 then s2\<lparr>is_passivity_first := False\<rparr> else s2) =
   (if (\<exists>u. snd X = Inr u) \<and> P (fst X) then (fst X)\<lparr>is_passivity_first := False\<rparr> else fst X)"
  by (cases X; cases "snd X") auto

lemma process_feedback_untouched: "untouched s (process_feedback pf pint s)"
proof (cases "\<not> PASSIVITY_MODE s \<and> \<not> waiting_for_positions s")
  case True
  then show ?thesis by (simp add: process_feedback_def drain_eq untouched_def)
next
  case False
  show ?thesis
  proof (cases "DEV_MODE s \<or> receive_queue s = []")
    case True
    then show ?thesis using False
      by (auto simp: process_feedback_def get_received_data_def untouched_def)
  next
    case nd: False
    then obtain data rest where q: "receive_queue s = data # rest"
      by (cases "receive_queue s") auto
    have u: "untouched s (s\<lparr>receive_queue := rest\<rparr>)"
      "untouched s (s\<lparr>receive_queue := rest, passivity_presets := p\<rparr>)" for p
      by (simp_all add: untouched_def)
    have f: "untouched s (fst (for_each (sync_joint nps) is (s\<lparr>receive_queue := rest\<rparr>))\<lparr>is_passivity_first := False\<rparr>)"
      for nps "is"
      using for_each_sync_untouched(1) [where s = s and q = rest and nps = nps and ?is = "is"] by (simp add: untouched_def)
    show ?thesis
      using False nd q u f for_each_sync_untouched(1) [where s = s and q = rest]
      by (auto simp: process_feedback_def get_received_data_def Let_def finish_sync
          split: option.split)
  qed
qed

lemma process_feedback_no_positions:
  assumes "\<forall>l \<in> set (receive_queue s). no_positions pint l"
  shows "passivity_presets (process_feedback pf pint s) = passivity_presets s \<and>
         set (receive_queue (process_feedback pf pint s)) \<subseteq> set (receive_queue s)"
proof (cases "\<not> PASSIVITY_MODE s \<and> \<not> waiting_for_positions s")
  case True
  then show ?thesis by (simp add: process_feedback_def drain_eq)
next
  case False
  show ?thesis
  proof (cases "DEV_MODE s \<or> receive_queue s = []")
    case True
    then show ?thesis using False
      by (auto simp: process_feedback_def get_received_data_def)
  next
    case nd: False
    then obtain data rest where q: "receive_queue s = data # rest"
      by (cases "receive_queue s") auto
    have np: "no_positions pint data" using assms q by simp
    show ?thesis
      using False nd q np for_each_sync_untouched(2,3) [where s = s and q = rest]
      by (auto simp: process_feedback_def get_received_data_def Let_def finish_sync no_positions_def
          split: option.split)
  qed
qed

lemma wait_for_positions_timeout:
  assumes "passivity_presets s = []"
    "\<forall>l \<in> set (receive_queue s). no_positions pint l"
    "\<forall>batch \<in> set arrivals. \<forall>l \<in> set batch. no_positions pint l"
  shows "snd (wait_for_positions pf pint nm arrivals s) = Inr False \<and>
         \<not> waiting_for_positions (fst (wait_for_positions pf pint nm arrivals s)) \<and>
         stored_presets (fst (wait_for_positions pf pint nm arrivals s)) = stored_presets s \<and>
         custom_presets (fst (wait_for_positions pf pint nm arrivals s)) = custom_presets s \<and>
         sent (fst (wait_for_positions pf pint nm arrivals s)) = sent s"
  using assms
proof (induction arrivals arbitrary: s)
  case Nil
  then show ?case by simp
next
  case (Cons batch arrivals)
  let ?s0 = "s\<lparr>receive_queue := receive_queue s @ batch\<rparr>"
  let ?s1 = "process_feedback pf pint ?s0"
  have q0: "\<forall>l \<in> set (receive_queue ?s0). no_positions pint l"
    using Cons.prems(2,3) by auto
  note np = process_feedback_no_positions [OF q0, where pf = pf]
  have p1: "passivity_presets ?s1 = []" using np Cons.prems(1) by simp
  have q1: "\<forall>l \<in> set (receive_queue ?s1). no_positions pint l"
    using np q0 by blast
  have r: "\<forall>batch \<in> set arrivals. \<forall>l \<in> set batch. no_positions pint l"
    using Cons.prems(3) by simp
  have un: "stored_presets ?s1 = stored_presets s" "custom_presets ?s1 = custom_presets s"
    "sent ?s1 = sent s"
    using process_feedback_untouched [of ?s0 pf pint] by (simp_all add: untouched_def)
  have e: "wait_for_positions pf pint nm (batch # arrivals) s = wait_for_positions pf pint nm arrivals ?s1"
    using p1 by (simp add: Let_def)
  show ?case
    unfolding e using Cons.IH [OF p1 q1 r] un by simp
qed

text \<open>
  Claim C5. A save in passivity mode, for a slot in range, during which no line that
  decodes as a \<open>Positions:\<close> response is in the receive queue or arrives before the
  polling ends, returns \<open>False\<close>, leaves the pending flag cleared, and changes neither
  the preset file nor the presets held in memory; the position request is the only
  command sent.
\<close>

theorem save_timeout_writes_nothing:
  assumes "PASSIVITY_MODE s" "0 \<le> slot_index" "slot_index < 4"
    "\<forall>l \<in> set (receive_queue s). no_positions pint l"
    "\<forall>batch \<in> set arrivals. \<forall>l \<in> set batch. no_positions pint l"
  shows "snd (save_custom_preset pf pint arrivals slot_index s) = Inr False \<and>
         \<not> waiting_for_positions (fst (save_custom_preset pf pint arrivals slot_index s)) \<and>
         stored_presets (fst (save_custom_preset pf pint arrivals slot_index s)) = stored_presets s \<and>
         custom_presets (fst (save_custom_preset pf pint arrivals slot_index s)) = custom_presets s \<and>
         sent (fst (save_custom_preset pf pint arrivals slot_index s)) = sent s @ [''3,0,0,0,0,0,0,0*'']"
proof -
  let ?s0 = "serial_send ''3,0,0,0,0,0,0,0*'' (s\<lparr>waiting_for_positions := True, passivity_presets := []\<rparr>)"
  have e: "save_custom_preset pf pint arrivals slot_index s =
      wait_for_positions pf pint (preset_name slot_index) arrivals ?s0"
    using assms(1-3) by (simp add: save_custom_preset_def)
  have a: "passivity_presets ?s0 = []" by (simp add: serial_send_def)
  have b: "\<forall>l \<in> set (receive_queue ?s0). no_positions pint l"
    using assms(4) by (simp add: serial_send_def)
  show ?thesis
    unfolding e using wait_for_positions_timeout [OF a b assms(5), where pf = pf and nm = "preset_name slot_index"]
    by (simp add: serial_send_def)
qed

theorem save_timeout_writes_nothing_witness:
  "PASSIVITY_MODE (in_passivity [''Feedback:600,500,400,810,710,520,530'']) \<and>
   snd (save_custom_preset float_of_digits int_of_digits [[], [''ready''], [''Positions:512*'']] 1
     (in_passivity [''Feedback:600,500,400,810,710,520,530''])) = Inr False \<and>
   \<not> waiting_for_positions (fst (save_custom_preset float_of_digits int_of_digits [[], [''ready''], [''Positions:512*'']] 1
     (in_passivity [''Feedback:600,500,400,810,710,520,530'']))) \<and>
   stored_presets (fst (save_custom_preset float_of_digits int_of_digits [[], [''ready''], [''Positions:512*'']] 1
     (in_passivity [''Feedback:600,500,400,810,710,520,530'']))) = Missing \<and>
   custom_presets (fst (save_custom_preset float_of_digits int_of_digits [[], [''ready''], [''Positions:512*'']] 1
     (in_passivity [''Feedback:600,500,400,810,710,520,530'']))) = builtin_custom_presets"
proof -
  let ?s = "in_passivity [''Feedback:600,500,400,810,710,520,530'']"
  have h1: "PASSIVITY_MODE ?s" by (simp add: in_passivity_eval)
  have h4: "\<forall>l \<in> set (receive_queue ?s). no_positions int_of_digits l"
    by (simp add: in_passivity_eval no_positions_def startswith_def)
  have h5: "\<forall>batch \<in> set [[], [''ready''], [''Positions:512*'']].
              \<forall>l \<in> set batch. no_positions int_of_digits l"
    by (simp add: no_positions_def startswith_def int_of_digits_def digit_val_def)
  show ?thesis
    using save_timeout_writes_nothing [OF h1 _ _ h4 h5, where slot_index = 1 and pf = float_of_digits] h1
    by (simp add: in_passivity_eval)
qed

end
